theory Spec2Isabelle
  imports Complex_Main
begin

section \<open>The declaration surface of the Instana agent (index.d.ts)\<close>

text \<open>
  The source is a TypeScript declaration file: type aliases, one numeric enum, two option
  interfaces and the method interface of the agent. It has no function bodies, so the
  embedding is the declarations themselves, written as data, together with the meaning
  TypeScript gives them: which run-time values inhabit a declared type, which argument
  lists a declared signature accepts, and which outcomes a declared return type allows.
\<close>

subsection \<open>Run-time values\<close>

text \<open>
  A JavaScript \<^verbatim>\<open>number\<close> is a double. No declaration inspects a numeric value, so the
  finite ones are carried as reals (every finite double is one) and the three special
  values are kept apart.
\<close>

datatype number = Finite real | NaN | PosInfinity | NegInfinity

datatype jsval =
    JUndefined
  | JBool bool
  | JNum number
  | JStr string
  | JArr "jsval list"
  | JObj "(string \<times> jsval) list"

text \<open>
  What a call hands back to its caller: a plain return, a promise that the native side
  later resolves with a value or rejects with an error value, or an exception thrown
  before anything is returned.
\<close>

datatype outcome = Returns jsval | Resolves jsval | Rejects jsval | Throws jsval

subsection \<open>Declared types\<close>

text \<open>
  The type expressions index.d.ts uses. A property or parameter is a triple of its name,
  whether it carries the \<^verbatim>\<open>?\<close> mark, and its type. \<open>TEnum\<close> lists the members of a numeric
  enum with their values; \<open>TRecord t\<close> is \<^verbatim>\<open>Record<string, t>\<close>.
\<close>

datatype ty =
    TString
  | TNumber
  | TBoolean
  | TLiteral string
  | TEnum "(string \<times> number) list"
  | TArray ty
  | TUnion "ty list"
  | TRecord ty
  | TObject "(string \<times> bool \<times> ty) list"

datatype ret = Void | Promise ty

record member =
  name :: string
  optional :: bool
  params :: "(string \<times> bool \<times> ty) list"
  returns :: ret

datatype platform = Android | IOS

subsection \<open>The declarations\<close>

text \<open>\<^verbatim>\<open>export type HTTPCaptureConfig = 'AUTO' | 'NONE';\<close>\<close>

definition HTTPCaptureConfig :: ty where
  "HTTPCaptureConfig = TUnion [TLiteral ''AUTO'', TLiteral ''NONE'']"

text \<open>\<^verbatim>\<open>export type SuspendReportingType = 'NEVER' | 'LOW_BATTERY' | ...\<close>\<close>

definition SuspendReportingType :: ty where
  "SuspendReportingType = TUnion
     [TLiteral ''NEVER'',
      TLiteral ''LOW_BATTERY'',
      TLiteral ''CELLULAR_CONNECTION'',
      TLiteral ''LOW_BATTERY_OR_CELLULAR_CONNECTION'']"

text \<open>\<^verbatim>\<open>export enum RateLimits { DEFAULT_LIMITS = 0, MID_LIMITS = 1, MAX_LIMITS = 2 }\<close>\<close>

definition RateLimits :: ty where
  "RateLimits = TEnum
     [(''DEFAULT_LIMITS'', Finite 0),
      (''MID_LIMITS'', Finite 1),
      (''MAX_LIMITS'', Finite 2)]"

text \<open>\<^verbatim>\<open>export interface SetupOptions { ... }\<close>: eleven properties, each marked \<^verbatim>\<open>?\<close>.\<close>

definition SetupOptions :: ty where
  "SetupOptions = TObject
     [(''collectionEnabled'', True, TBoolean),
      (''enableCrashReporting'', True, TBoolean),
      (''slowSendInterval'', True, TNumber),
      (''usiRefreshTimeIntervalInHrs'', True, TNumber),
      (''httpCaptureConfig'', True, HTTPCaptureConfig),
      (''suspendReporting'', True, SuspendReportingType),
      (''dropBeaconReporting'', True, TBoolean),
      (''rateLimits'', True, TUnion [RateLimits, TNumber]),
      (''trustDeviceTiming'', True, TBoolean),
      (''enableW3CHeaders'', True, TBoolean),
      (''queryTrackedDomainList'', True, TArray TString)]"

text \<open>
  The \<^verbatim>\<open>@default\<close> tags of the SetupOptions properties. \<^verbatim>\<open>suspendReporting\<close> documents a
  default on Android only, and \<^verbatim>\<open>queryTrackedDomainList\<close> documents none.
\<close>

definition SetupOptions_defaults :: "platform \<Rightarrow> (string \<times> jsval) list" where
  "SetupOptions_defaults p =
     [(''collectionEnabled'', JBool True),
      (''enableCrashReporting'', JBool False),
      (''slowSendInterval'', JNum (Finite 0)),
      (''usiRefreshTimeIntervalInHrs'', JNum (Finite (- 1))),
      (''httpCaptureConfig'', JStr ''AUTO'')]
     @ (if p = Android then [(''suspendReporting'', JStr ''LOW_BATTERY'')] else [])
     @ [(''dropBeaconReporting'', JBool False),
        (''rateLimits'', JNum (Finite 0)),
        (''trustDeviceTiming'', JBool False),
        (''enableW3CHeaders'', JBool False)]"

text \<open>\<^verbatim>\<open>export interface EventOptions { ... }\<close>: six properties, each marked \<^verbatim>\<open>?\<close>.\<close>

definition EventOptions :: ty where
  "EventOptions = TObject
     [(''startTime'', True, TNumber),
      (''duration'', True, TNumber),
      (''viewName'', True, TString),
      (''meta'', True, TRecord TString),
      (''backendTracingId'', True, TString),
      (''customMetric'', True, TNumber)]"

text \<open>\<^verbatim>\<open>export interface InstanaInterface { ... }\<close>: fourteen methods, in source order.\<close>

definition InstanaInterface :: "member list" where
  "InstanaInterface =
     [\<lparr>name = ''setup'', optional = False,
       params = [(''key'', False, TString), (''reportingUrl'', False, TString),
                 (''options'', True, SetupOptions)],
       returns = Void\<rparr>,
      \<lparr>name = ''setCollectionEnabled'', optional = False,
       params = [(''enabled'', True, TBoolean)], returns = Void\<rparr>,
      \<lparr>name = ''setView'', optional = False,
       params = [(''viewName'', False, TString)], returns = Void\<rparr>,
      \<lparr>name = ''getSessionID'', optional = False,
       params = [], returns = Promise TString\<rparr>,
      \<lparr>name = ''setUserID'', optional = False,
       params = [(''userID'', False, TString)], returns = Void\<rparr>,
      \<lparr>name = ''setUserName'', optional = False,
       params = [(''userName'', False, TString)], returns = Void\<rparr>,
      \<lparr>name = ''setUserEmail'', optional = False,
       params = [(''userEmail'', False, TString)], returns = Void\<rparr>,
      \<lparr>name = ''setMeta'', optional = False,
       params = [(''key'', False, TString), (''value'', False, TString)], returns = Void\<rparr>,
      \<lparr>name = ''setIgnoreURLsByRegex'', optional = False,
       params = [(''regexArray'', False, TArray TString)], returns = Promise TString\<rparr>,
      \<lparr>name = ''setRedactHTTPQueryByRegex'', optional = False,
       params = [(''regexArray'', False, TArray TString)], returns = Promise TString\<rparr>,
      \<lparr>name = ''setCaptureHeadersByRegex'', optional = False,
       params = [(''regexArray'', False, TArray TString)], returns = Promise TString\<rparr>,
      \<lparr>name = ''reportEvent'', optional = False,
       params = [(''eventName'', False, TString), (''options'', True, EventOptions)],
       returns = Void\<rparr>,
      \<lparr>name = ''getViewName'', optional = True,
       params = [], returns = Promise TString\<rparr>,
      \<lparr>name = ''getCollectionEnabled'', optional = True,
       params = [], returns = Promise TBoolean\<rparr>]"

subsection \<open>What the declarations mean\<close>

text \<open>
  \<open>conforms v t\<close>: the type checker admits the value \<open>v\<close> where the declared type \<open>t\<close> is
  expected. A string-literal type has one inhabitant and a union the inhabitants of its
  alternatives. A numeric enum is open: besides the values of its members, TypeScript
  assigns every value of type \<^verbatim>\<open>number\<close> to it. An object is checked as an object literal
  is: each declared property must be present with a value of its type, unless it is
  marked \<^verbatim>\<open>?\<close>, when it may also be missing or \<^verbatim>\<open>undefined\<close>, and a property that is not
  declared is refused.
\<close>

fun is_string :: "jsval \<Rightarrow> bool" where
  "is_string (JStr s) = True"
| "is_string v = False"

fun is_number :: "jsval \<Rightarrow> bool" where
  "is_number (JNum n) = True"
| "is_number v = False"

fun is_boolean :: "jsval \<Rightarrow> bool" where
  "is_boolean (JBool b) = True"
| "is_boolean v = False"

fun elements :: "jsval \<Rightarrow> jsval list option" where
  "elements (JArr vs) = Some vs"
| "elements v = None"

fun properties :: "jsval \<Rightarrow> (string \<times> jsval) list option" where
  "properties (JObj fs) = Some fs"
| "properties v = None"

fun conforms :: "jsval \<Rightarrow> ty \<Rightarrow> bool" where
  "conforms v TString = is_string v"
| "conforms v TNumber = is_number v"
| "conforms v TBoolean = is_boolean v"
| "conforms v (TLiteral s) = (v = JStr s)"
| "conforms v (TEnum ms) = (v \<in> set (map (\<lambda>m. JNum (snd m)) ms) \<or> is_number v)"
| "conforms v (TArray t) =
     (case elements v of None \<Rightarrow> False
      | Some vs \<Rightarrow> list_all (\<lambda>x. conforms x t) vs)"
| "conforms v (TUnion ts) = list_ex (\<lambda>t. conforms v t) ts"
| "conforms v (TRecord t) =
     (case properties v of None \<Rightarrow> False
      | Some fs \<Rightarrow> list_all (\<lambda>f. conforms (snd f) t) fs)"
| "conforms v (TObject ps) =
     (case properties v of None \<Rightarrow> False
      | Some fs \<Rightarrow>
          list_all (\<lambda>f. fst f \<in> set (map fst ps)) fs \<and>
          list_all (\<lambda>p. case map_of fs (fst p) of
                           None \<Rightarrow> fst (snd p)
                         | Some x \<Rightarrow> (fst (snd p) \<and> x = JUndefined) \<or> conforms x (snd (snd p))) ps)"

text \<open>
  \<open>accepts_args ps args\<close>: a call with the arguments \<open>args\<close> type-checks against the
  parameter list \<open>ps\<close>. Arguments are matched by position; a parameter marked \<^verbatim>\<open>?\<close> may be
  left out or given as \<^verbatim>\<open>undefined\<close>; an argument beyond the last parameter is refused.
\<close>

fun accepts_args :: "(string \<times> bool \<times> ty) list \<Rightarrow> jsval list \<Rightarrow> bool" where
  "accepts_args [] [] = True"
| "accepts_args [] (a # as) = False"
| "accepts_args (p # ps) [] = (fst (snd p) \<and> accepts_args ps [])"
| "accepts_args (p # ps) (a # as) =
     (((fst (snd p) \<and> a = JUndefined) \<or> conforms a (snd (snd p))) \<and> accepts_args ps as)"

definition member_named :: "string \<Rightarrow> member option" where
  "member_named n = find (\<lambda>m. name m = n) InstanaInterface"

definition accepts :: "string \<Rightarrow> jsval list \<Rightarrow> bool" where
  "accepts n args =
     (case member_named n of None \<Rightarrow> False | Some m \<Rightarrow> accepts_args (params m) args)"

text \<open>
  \<open>allows r out\<close>: an implementation with the outcome \<open>out\<close> type-checks against the
  declared return type \<open>r\<close>. No return type excludes an exception. \<^verbatim>\<open>void\<close> puts no bound on
  what the implementation hands back: TypeScript takes a function with any result, a
  promise that rejects included, where a \<^verbatim>\<open>void\<close> one is declared; the declaration only
  tells the caller that there is nothing to use. A \<^verbatim>\<open>Promise<t>\<close> method hands back a
  promise, never a plain value; it resolves with a value of \<open>t\<close> or rejects, and the type
  of a promise puts no bound on the value it rejects with.
\<close>

fun allows :: "ret \<Rightarrow> outcome \<Rightarrow> bool" where
  "allows r (Throws e) = True"
| "allows Void out = True"
| "allows (Promise t) (Resolves v) = conforms v t"
| "allows (Promise t) (Rejects e) = True"
| "allows (Promise t) (Returns v) = False"

text \<open>
  \<open>implements ns\<close>: an object that provides exactly the methods named in \<open>ns\<close> is an
  InstanaInterface; every member not marked \<^verbatim>\<open>?\<close> has to be there.
\<close>

definition implements :: "string list \<Rightarrow> bool" where
  "implements ns = list_all (\<lambda>m. optional m \<or> name m \<in> set ns) InstanaInterface"

text \<open>The value of an enum member, \<^verbatim>\<open>E.NAME\<close>.\<close>

fun enum_value :: "ty \<Rightarrow> string \<Rightarrow> jsval option" where
  "enum_value (TEnum ms) n = map_option JNum (map_of ms n)"
| "enum_value t n = None"

text \<open>An object literal with the properties \<open>ks\<close>, each holding \<open>val k\<close>.\<close>

definition object_of :: "string list \<Rightarrow> (string \<Rightarrow> jsval) \<Rightarrow> jsval" where
  "object_of ks val = JObj (map (\<lambda>k. (k, val k)) ks)"

text \<open>The property list of an object type and the member list of an enum.\<close>

fun props_of :: "ty \<Rightarrow> (string \<times> bool \<times> ty) list" where
  "props_of (TObject ps) = ps"
| "props_of t = []"

fun members_of :: "ty \<Rightarrow> (string \<times> number) list" where
  "members_of (TEnum ms) = ms"
| "members_of t = []"

subsection \<open>The native side of the regex methods\<close>

text \<open>
  Modelled from the spec: the native code behind \<^verbatim>\<open>setIgnoreURLsByRegex\<close>,
  \<^verbatim>\<open>setRedactHTTPQueryByRegex\<close> and \<^verbatim>\<open>setCaptureHeadersByRegex\<close> is missing from the
  sources, which hold their declarations only. The specification gives all three the same
  contract: the promise resolves to a literal success marker, and rejects with the native
  error on an invalid pattern; the doc comments of index.d.ts name the marker,
  \<^verbatim>\<open>"Success"\<close>. The platform's regex compiler is missing as well and is a parameter: it
  yields \<open>None\<close> for a pattern that compiles and the native error for one that does not.
\<close>

type_synonym regex_compiler = "string \<Rightarrow> jsval option"

fun regex_method :: "regex_compiler \<Rightarrow> string list \<Rightarrow> outcome" where
  "regex_method compile [] = Resolves (JStr ''Success'')"
| "regex_method compile (p # ps) =
     (case compile p of Some e \<Rightarrow> Rejects e | None \<Rightarrow> regex_method compile ps)"

text \<open>Modelled from the spec: \<^verbatim>\<open>setIgnoreURLsByRegex\<close>, whose native code is missing.\<close>

definition setIgnoreURLsByRegex :: "regex_compiler \<Rightarrow> string list \<Rightarrow> outcome" where
  "setIgnoreURLsByRegex compile regexArray = regex_method compile regexArray"

text \<open>Modelled from the spec: \<^verbatim>\<open>setRedactHTTPQueryByRegex\<close>, "same shape, same, same".\<close>

definition setRedactHTTPQueryByRegex :: "regex_compiler \<Rightarrow> string list \<Rightarrow> outcome" where
  "setRedactHTTPQueryByRegex compile regexArray = regex_method compile regexArray"

text \<open>Modelled from the spec: \<^verbatim>\<open>setCaptureHeadersByRegex\<close>, "same shape, same, same".\<close>

definition setCaptureHeadersByRegex :: "regex_compiler \<Rightarrow> string list \<Rightarrow> outcome" where
  "setCaptureHeadersByRegex compile regexArray = regex_method compile regexArray"

text \<open>The three regex methods, each declared name with its native side.\<close>

definition regex_methods ::
    "(string \<times> (regex_compiler \<Rightarrow> string list \<Rightarrow> outcome)) list" where
  "regex_methods =
     [(''setIgnoreURLsByRegex'', setIgnoreURLsByRegex),
      (''setRedactHTTPQueryByRegex'', setRedactHTTPQueryByRegex),
      (''setCaptureHeadersByRegex'', setCaptureHeadersByRegex)]"

section \<open>Basic facts\<close>

lemma map_of_object:
  "map_of (map (\<lambda>k. (k, val k)) ks) k = (if k \<in> set ks then Some (val k) else None)"
  by (induction ks) auto

lemma conforms_object_of:
  assumes "set ks \<subseteq> set (map fst ps)"
    and "list_all (\<lambda>p. fst (snd p)) ps"
    and "\<forall>p \<in> set ps. fst p \<in> set ks \<longrightarrow> conforms (val (fst p)) (snd (snd p))"
  shows "conforms (object_of ks val) (TObject ps)"
proof -
  have declared: "list_all (\<lambda>f. fst f \<in> set (map fst ps)) (map (\<lambda>k. (k, val k)) ks)"
    using assms(1) by (auto simp: list_all_iff)
  show ?thesis
    using declared assms(2,3) by (simp add: object_of_def list_all_iff map_of_object)
qed

lemma conforms_string_array: "conforms (JArr (map JStr ps)) (TArray TString)"
  by (simp add: list_all_iff)

lemma member_names:
  "map name InstanaInterface =
     [''setup'', ''setCollectionEnabled'', ''setView'', ''getSessionID'', ''setUserID'',
      ''setUserName'', ''setUserEmail'', ''setMeta'', ''setIgnoreURLsByRegex'',
      ''setRedactHTTPQueryByRegex'', ''setCaptureHeadersByRegex'', ''reportEvent'',
      ''getViewName'', ''getCollectionEnabled'']"
  by (simp add: InstanaInterface_def)

lemma setup_member:
  "member_named ''setup'' = Some \<lparr>name = ''setup'', optional = False,
       params = [(''key'', False, TString), (''reportingUrl'', False, TString),
                 (''options'', True, SetupOptions)],
       returns = Void\<rparr>"
  by (simp add: member_named_def InstanaInterface_def)

lemma reportEvent_member:
  "member_named ''reportEvent'' = Some \<lparr>name = ''reportEvent'', optional = False,
       params = [(''eventName'', False, TString), (''options'', True, EventOptions)],
       returns = Void\<rparr>"
  by (simp add: member_named_def InstanaInterface_def)

lemma regex_members:
  "n \<in> set (map fst regex_methods) \<Longrightarrow>
   member_named n = Some \<lparr>name = n, optional = False,
       params = [(''regexArray'', False, TArray TString)], returns = Promise TString\<rparr>"
  by (auto simp: regex_methods_def member_named_def InstanaInterface_def)

lemma SetupOptions_all_optional: "list_all (\<lambda>p. fst (snd p)) (props_of SetupOptions)"
  by (simp add: SetupOptions_def)

lemma EventOptions_all_optional: "list_all (\<lambda>p. fst (snd p)) (props_of EventOptions)"
  by (simp add: EventOptions_def)

lemma regex_method_all_valid:
  "list_all (\<lambda>p. compile p = None) ps \<Longrightarrow> regex_method compile ps = Resolves (JStr ''Success'')"
  by (induction ps) auto

lemma regex_method_some_invalid:
  "\<not> list_all (\<lambda>p. compile p = None) ps \<Longrightarrow>
     \<exists>p e. p \<in> set ps \<and> compile p = Some e \<and> regex_method compile ps = Rejects e"
  by (induction ps) (auto split: option.splits)

section \<open>The claims\<close>

text \<open>
  C1. Each of the three regex-pattern methods is declared with one required parameter, an
  array of strings, and the return type \<^verbatim>\<open>Promise<string>\<close>, so the three have the same
  shape and accept every array of pattern strings. On the native side as the specification
  describes it, a call whose patterns all compile resolves to the string \<^verbatim>\<open>"Success"\<close>; a
  call with a pattern that does not compile rejects with the native error of such a
  pattern, in particular the call with \<^verbatim>\<open>["("]\<close> when \<^verbatim>\<open>(\<close> does not compile. Either
  outcome is one the declared return type allows.
\<close>

theorem regex_methods_contract:
  assumes "(n, f) \<in> set regex_methods"
  shows "member_named n = Some \<lparr>name = n, optional = False,
             params = [(''regexArray'', False, TArray TString)], returns = Promise TString\<rparr>
     \<and> accepts n [JArr (map JStr ps)]
     \<and> allows (Promise TString) (f compile ps)
     \<and> (list_all (\<lambda>p. compile p = None) ps \<longrightarrow> f compile ps = Resolves (JStr ''Success''))
     \<and> (\<not> list_all (\<lambda>p. compile p = None) ps \<longrightarrow>
           (\<exists>p e. p \<in> set ps \<and> compile p = Some e \<and> f compile ps = Rejects e))
     \<and> (compile ''('' = Some e \<longrightarrow> f compile [''(''] = Rejects e)"
proof -
  have f: "f = regex_method"
    using assms
    by (auto simp: regex_methods_def setIgnoreURLsByRegex_def setRedactHTTPQueryByRegex_def
        setCaptureHeadersByRegex_def fun_eq_iff)
  have n: "n \<in> set (map fst regex_methods)"
    using assms by force
  have al: "allows (Promise TString) (regex_method compile ps)"
  proof (cases "list_all (\<lambda>p. compile p = None) ps")
    case True
    then show ?thesis by (simp add: regex_method_all_valid)
  next
    case False
    then show ?thesis using regex_method_some_invalid [of compile ps] by auto
  qed
  show ?thesis
    using regex_members [OF n] al regex_method_all_valid [of compile ps]
      regex_method_some_invalid [of compile ps] conforms_string_array [of ps]
    by (simp add: f accepts_def)
qed

theorem regex_methods_contract_witness:
  "setIgnoreURLsByRegex (\<lambda>p. if p = ''('' then Some (JStr ''unterminated group'') else None)
      [''^/health$''] = Resolves (JStr ''Success'')
   \<and> setIgnoreURLsByRegex (\<lambda>p. if p = ''('' then Some (JStr ''unterminated group'') else None)
      [''(''] = Rejects (JStr ''unterminated group'')
   \<and> accepts ''setIgnoreURLsByRegex'' [JArr [JStr ''^/health$'']]"
proof -
  let ?c = "\<lambda>p. if p = ''('' then Some (JStr ''unterminated group'') else None"
  have h: "(''setIgnoreURLsByRegex'', setIgnoreURLsByRegex) \<in> set regex_methods"
    by (simp add: regex_methods_def)
  show ?thesis
    using regex_methods_contract [OF h, of "[''^/health$'']" ?c "JStr ''unterminated group''"]
    by simp
qed

text \<open>
  C2. Every property of SetupOptions is marked optional and so is the \<^verbatim>\<open>options\<close>
  parameter of \<^verbatim>\<open>setup\<close>: for any choice \<open>ks\<close> of SetupOptions properties, given values of
  their declared types, \<^verbatim>\<open>setup(key, reportingUrl, options)\<close> type-checks, as it does with
  the empty record and with the argument left out. \<^verbatim>\<open>setup\<close> is declared \<^verbatim>\<open>void\<close> and not
  a promise: the declaration gives its caller no result and no rejection to observe.
\<close>

theorem setup_accepts_every_subset:
  assumes "set ks \<subseteq> set (map fst (props_of SetupOptions))"
    and "\<forall>p \<in> set (props_of SetupOptions).
           fst p \<in> set ks \<longrightarrow> conforms (val (fst p)) (snd (snd p))"
  shows "list_all (\<lambda>p. fst (snd p)) (props_of SetupOptions)
     \<and> accepts ''setup'' [JStr key, JStr url, object_of ks val]
     \<and> accepts ''setup'' [JStr key, JStr url, JObj []]
     \<and> accepts ''setup'' [JStr key, JStr url]
     \<and> (\<exists>m. member_named ''setup'' = Some m \<and> returns m = Void
            \<and> (\<forall>t. returns m \<noteq> Promise t))"
proof -
  have obj: "conforms (object_of ks val) (TObject (props_of SetupOptions))"
    using assms(1) SetupOptions_all_optional assms(2) by (rule conforms_object_of)
  have emp: "conforms (JObj []) (TObject (props_of SetupOptions))"
    using SetupOptions_all_optional by (simp add: list_all_iff)
  have unf: "TObject (props_of SetupOptions) = SetupOptions"
    by (simp add: SetupOptions_def)
  show ?thesis
    using obj emp SetupOptions_all_optional
    by (simp add: unf accepts_def setup_member)
qed

theorem setup_accepts_every_subset_witness:
  "accepts ''setup'' [JStr ''key'', JStr ''https://example.com'',
      JObj [(''rateLimits'', JNum (Finite 2)), (''collectionEnabled'', JBool False)]]
   \<and> accepts ''setup'' [JStr ''key'', JStr ''https://example.com'', JObj []]
   \<and> accepts ''setup'' [JStr ''key'', JStr ''https://example.com'']"
proof -
  let ?val = "\<lambda>k. if k = ''rateLimits'' then JNum (Finite 2) else JBool False"
  let ?ks = "[''rateLimits'', ''collectionEnabled'']"
  have h1: "set ?ks \<subseteq> set (map fst (props_of SetupOptions))"
    by (simp add: SetupOptions_def)
  have h2: "\<forall>p \<in> set (props_of SetupOptions).
           fst p \<in> set ?ks \<longrightarrow> conforms (?val (fst p)) (snd (snd p))"
    by (simp add: SetupOptions_def RateLimits_def)
  show ?thesis
    using setup_accepts_every_subset [OF h1 h2, of "''key''" "''https://example.com''"]
    by (simp add: object_of_def)
qed

text \<open>
  C3. For every method \<open>m\<close> of InstanaInterface: \<open>m\<close> is declared with a promise return
  type exactly when it is one of \<^verbatim>\<open>getSessionID\<close>, the three regex methods, \<^verbatim>\<open>getViewName\<close>
  and \<^verbatim>\<open>getCollectionEnabled\<close>, all six of them members; every other method is declared
  \<^verbatim>\<open>void\<close>. Each of the six hands its caller a promise and never a plain value, and its
  type leaves the rejection open to any error value: that is the declared failure channel.
  A \<^verbatim>\<open>void\<close> declaration has no promise, so no completion and no rejection is declared for
  the other eight.
\<close>

theorem failure_channel_iff_promise:
  assumes "m \<in> set InstanaInterface"
  shows "((\<exists>t. returns m = Promise t) \<longleftrightarrow>
          name m \<in> set [''getSessionID'', ''setIgnoreURLsByRegex'',
            ''setRedactHTTPQueryByRegex'', ''setCaptureHeadersByRegex'', ''getViewName'',
            ''getCollectionEnabled''])
     \<and> set [''getSessionID'', ''setIgnoreURLsByRegex'', ''setRedactHTTPQueryByRegex'',
            ''setCaptureHeadersByRegex'', ''getViewName'', ''getCollectionEnabled'']
          \<subseteq> set (map name InstanaInterface)
     \<and> (returns m = Void \<longleftrightarrow>
          name m \<notin> set [''getSessionID'', ''setIgnoreURLsByRegex'',
            ''setRedactHTTPQueryByRegex'', ''setCaptureHeadersByRegex'', ''getViewName'',
            ''getCollectionEnabled''])
     \<and> (name m \<in> set [''getSessionID'', ''setIgnoreURLsByRegex'',
            ''setRedactHTTPQueryByRegex'', ''setCaptureHeadersByRegex'', ''getViewName'',
            ''getCollectionEnabled''] \<longrightarrow>
          (\<forall>e. allows (returns m) (Rejects e)) \<and> (\<forall>v. \<not> allows (returns m) (Returns v)))"
proof -
  have a: "(\<exists>t. returns m = Promise t) \<longleftrightarrow>
          name m \<in> set [''getSessionID'', ''setIgnoreURLsByRegex'',
            ''setRedactHTTPQueryByRegex'', ''setCaptureHeadersByRegex'', ''getViewName'',
            ''getCollectionEnabled'']"
    using assms unfolding InstanaInterface_def by auto
  have b: "returns m = Void \<longleftrightarrow> (\<nexists>t. returns m = Promise t)"
    by (cases "returns m") auto
  have c: "(\<forall>e. allows (returns m) (Rejects e)) \<and> (\<forall>v. \<not> allows (returns m) (Returns v))"
    if "\<exists>t. returns m = Promise t"
    using that by auto
  show ?thesis
    using a b c by (simp add: member_names)
qed

theorem failure_channel_iff_promise_witness:
  "returns \<lparr>name = ''getSessionID'', optional = False, params = [],
            returns = Promise TString\<rparr> \<noteq> Void
   \<and> allows (Promise TString) (Rejects (JStr ''native error''))
   \<and> \<not> allows (Promise TString) (Returns (JStr ''session-1''))
   \<and> returns \<lparr>name = ''setView'', optional = False,
            params = [(''viewName'', False, TString)], returns = Void\<rparr> = Void"
  using failure_channel_iff_promise
      [of "\<lparr>name = ''getSessionID'', optional = False, params = [], returns = Promise TString\<rparr>"]
    failure_channel_iff_promise
      [of "\<lparr>name = ''setView'', optional = False,
            params = [(''viewName'', False, TString)], returns = Void\<rparr>"]
  by (simp add: InstanaInterface_def)

text \<open>
  C4. The members of InstanaInterface marked optional are exactly \<^verbatim>\<open>getViewName\<close> and
  \<^verbatim>\<open>getCollectionEnabled\<close>; the other twelve are required. An object is an InstanaInterface
  exactly when it provides the twelve required methods, so an implementation stays one
  when the two optional members are taken away: a caller cannot count on them.
\<close>

theorem optional_members_feature_detect:
  "map name (filter optional InstanaInterface) = [''getViewName'', ''getCollectionEnabled'']
   \<and> map name (filter (\<lambda>m. \<not> optional m) InstanaInterface) =
       [''setup'', ''setCollectionEnabled'', ''setView'', ''getSessionID'', ''setUserID'',
        ''setUserName'', ''setUserEmail'', ''setMeta'', ''setIgnoreURLsByRegex'',
        ''setRedactHTTPQueryByRegex'', ''setCaptureHeadersByRegex'', ''reportEvent'']
   \<and> (implements ns \<longleftrightarrow>
        set [''setup'', ''setCollectionEnabled'', ''setView'', ''getSessionID'', ''setUserID'',
          ''setUserName'', ''setUserEmail'', ''setMeta'', ''setIgnoreURLsByRegex'',
          ''setRedactHTTPQueryByRegex'', ''setCaptureHeadersByRegex'', ''reportEvent'']
        \<subseteq> set ns)
   \<and> (implements ns \<longrightarrow>
        implements (removeAll ''getViewName'' (removeAll ''getCollectionEnabled'' ns)))"
  by (auto simp: implements_def InstanaInterface_def)

theorem optional_members_feature_detect_witness:
  "implements [''setup'', ''setCollectionEnabled'', ''setView'', ''getSessionID'', ''setUserID'',
        ''setUserName'', ''setUserEmail'', ''setMeta'', ''setIgnoreURLsByRegex'',
        ''setRedactHTTPQueryByRegex'', ''setCaptureHeadersByRegex'', ''reportEvent'']
   \<and> \<not> implements [''setup'', ''setCollectionEnabled'', ''setView'', ''setUserID'',
        ''setUserName'', ''setUserEmail'', ''setMeta'', ''setIgnoreURLsByRegex'',
        ''setRedactHTTPQueryByRegex'', ''setCaptureHeadersByRegex'', ''reportEvent'',
        ''getViewName'', ''getCollectionEnabled'']"
  using optional_members_feature_detect
      [of "[''setup'', ''setCollectionEnabled'', ''setView'', ''getSessionID'', ''setUserID'',
        ''setUserName'', ''setUserEmail'', ''setMeta'', ''setIgnoreURLsByRegex'',
        ''setRedactHTTPQueryByRegex'', ''setCaptureHeadersByRegex'', ''reportEvent'']"]
    optional_members_feature_detect
      [of "[''setup'', ''setCollectionEnabled'', ''setView'', ''setUserID'',
        ''setUserName'', ''setUserEmail'', ''setMeta'', ''setIgnoreURLsByRegex'',
        ''setRedactHTTPQueryByRegex'', ''setCaptureHeadersByRegex'', ''reportEvent'',
        ''getViewName'', ''getCollectionEnabled'']"]
  by simp

text \<open>
  C5. \<^verbatim>\<open>reportEvent\<close> takes a string and an EventOptions record. EventOptions has the six
  properties startTime, duration, viewName, meta, backendTracingId and customMetric, each
  marked optional: for any choice \<open>ks\<close> of them, given values of their declared types, the
  call type-checks. In particular \<^verbatim>\<open>reportEvent("purchase", { customMetric: 42 })\<close> does.
\<close>

theorem reportEvent_options_independent:
  assumes "set ks \<subseteq> set (map fst (props_of EventOptions))"
    and "\<forall>p \<in> set (props_of EventOptions).
           fst p \<in> set ks \<longrightarrow> conforms (val (fst p)) (snd (snd p))"
  shows "map fst (props_of EventOptions) =
           [''startTime'', ''duration'', ''viewName'', ''meta'', ''backendTracingId'',
            ''customMetric'']
     \<and> list_all (\<lambda>p. fst (snd p)) (props_of EventOptions)
     \<and> accepts ''reportEvent'' [JStr eventName, object_of ks val]
     \<and> accepts ''reportEvent'' [JStr ''purchase'', JObj [(''customMetric'', JNum (Finite 42))]]"
proof -
  have obj: "conforms (object_of ks val) (TObject (props_of EventOptions))"
    using assms(1) EventOptions_all_optional assms(2) by (rule conforms_object_of)
  have unf: "TObject (props_of EventOptions) = EventOptions"
    by (simp add: EventOptions_def)
  have names: "map fst (props_of EventOptions) =
           [''startTime'', ''duration'', ''viewName'', ''meta'', ''backendTracingId'',
            ''customMetric'']"
    by (simp add: EventOptions_def)
  have purchase: "conforms (JObj [(''customMetric'', JNum (Finite 42))]) EventOptions"
    by (simp add: EventOptions_def)
  show ?thesis
    using obj EventOptions_all_optional names purchase
    by (simp add: unf accepts_def reportEvent_member)
qed

theorem reportEvent_options_independent_witness:
  "accepts ''reportEvent''
     [JStr ''login'', JObj [(''viewName'', JStr ''Home''), (''duration'', JNum (Finite 12))]]"
proof -
  let ?val = "\<lambda>k. if k = ''viewName'' then JStr ''Home'' else JNum (Finite 12)"
  let ?ks = "[''viewName'', ''duration'']"
  have h1: "set ?ks \<subseteq> set (map fst (props_of EventOptions))"
    by (simp add: EventOptions_def)
  have h2: "\<forall>p \<in> set (props_of EventOptions).
           fst p \<in> set ?ks \<longrightarrow> conforms (?val (fst p)) (snd (snd p))"
    by (simp add: EventOptions_def)
  show ?thesis
    using reportEvent_options_independent [OF h1 h2, of "''login''"]
    by (simp add: object_of_def)
qed

text \<open>
  C6. The \<^verbatim>\<open>rateLimits\<close> property of SetupOptions is optional and declared
  \<^verbatim>\<open>RateLimits | number\<close>. \<^verbatim>\<open>RateLimits.MAX_LIMITS\<close> is the number 2; it inhabits the
  property's type both as a RateLimits value and as a number. The type admits every
  RateLimits value and every number, and \<^verbatim>\<open>setup\<close> accepts options that carry it.
\<close>

theorem rateLimits_admits_enum_and_number:
  "\<exists>t v. map_of (props_of SetupOptions) ''rateLimits'' = Some (True, t)
     \<and> enum_value RateLimits ''MAX_LIMITS'' = Some v \<and> v = JNum (Finite 2)
     \<and> conforms v RateLimits \<and> conforms v TNumber \<and> conforms v t
     \<and> (\<forall>x. conforms x RateLimits \<longrightarrow> conforms x t)
     \<and> (\<forall>x. conforms x TNumber \<longrightarrow> conforms x t)
     \<and> (\<forall>n. conforms (JNum n) t)
     \<and> accepts ''setup'' [JStr key, JStr url, JObj [(''rateLimits'', v)]]"
  by (simp add: SetupOptions_def RateLimits_def accepts_def setup_member)

theorem rateLimits_admits_enum_and_number_witness:
  "accepts ''setup'' [JStr ''k'', JStr ''u'', JObj [(''rateLimits'', JNum (Finite 2))]]"
  using rateLimits_admits_enum_and_number [of "''k''" "''u''"] by auto

text \<open>
  C7. \<^verbatim>\<open>getSessionID\<close> is a required member with no parameters, so it accepts the empty
  argument list and no other, and its return type is \<^verbatim>\<open>Promise<string>\<close>: the promise may
  resolve with a string and with nothing else, it may reject with any error value, and
  the method never hands back a plain value. The declaration holds no state, so this is
  so whether or not \<^verbatim>\<open>setup\<close> was called before.
\<close>

theorem getSessionID_signature:
  "\<exists>m. member_named ''getSessionID'' = Some m \<and> \<not> optional m \<and> params m = []
     \<and> returns m = Promise TString
     \<and> (\<forall>args. accepts ''getSessionID'' args \<longleftrightarrow> args = [])
     \<and> (\<forall>v. allows (returns m) (Resolves v) \<longleftrightarrow> (\<exists>s. v = JStr s))
     \<and> (\<forall>e. allows (returns m) (Rejects e))
     \<and> (\<forall>v. \<not> allows (returns m) (Returns v))"
proof -
  have m: "member_named ''getSessionID'' =
      Some \<lparr>name = ''getSessionID'', optional = False, params = [], returns = Promise TString\<rparr>"
    by (simp add: member_named_def InstanaInterface_def)
  have args: "accepts_args [] args \<longleftrightarrow> args = []" for args
    by (cases args) auto
  have str: "is_string v \<longleftrightarrow> (\<exists>s. v = JStr s)" for v
    by (cases v) auto
  show ?thesis
    by (simp add: m accepts_def args str)
qed

theorem getSessionID_signature_witness:
  "accepts ''getSessionID'' [] \<and> \<not> accepts ''getSessionID'' [JStr ''x'']
   \<and> allows (Promise TString) (Resolves (JStr ''session-1''))
   \<and> \<not> allows (Promise TString) (Resolves (JNum (Finite 1)))"
  using getSessionID_signature by auto

text \<open>
  C8. RateLimits declares exactly the three members DEFAULT_LIMITS, MID_LIMITS and
  MAX_LIMITS: these names denote a member and no other name does. A value is an
  HTTPCaptureConfig exactly when it is the string AUTO or NONE, and a SuspendReportingType
  exactly when it is one of the strings NEVER, LOW_BATTERY, CELLULAR_CONNECTION,
  LOW_BATTERY_OR_CELLULAR_CONNECTION.
\<close>

theorem closed_enumerations:
  "map fst (members_of RateLimits) = [''DEFAULT_LIMITS'', ''MID_LIMITS'', ''MAX_LIMITS'']
   \<and> (\<forall>n. (\<exists>v. enum_value RateLimits n = Some v) \<longleftrightarrow>
          n = ''DEFAULT_LIMITS'' \<or> n = ''MID_LIMITS'' \<or> n = ''MAX_LIMITS'')
   \<and> (\<forall>v. conforms v HTTPCaptureConfig \<longleftrightarrow> v = JStr ''AUTO'' \<or> v = JStr ''NONE'')
   \<and> (\<forall>v. conforms v SuspendReportingType \<longleftrightarrow>
          v = JStr ''NEVER'' \<or> v = JStr ''LOW_BATTERY'' \<or> v = JStr ''CELLULAR_CONNECTION''
        \<or> v = JStr ''LOW_BATTERY_OR_CELLULAR_CONNECTION'')"
proof -
  have members: "map fst (members_of RateLimits) =
      [''DEFAULT_LIMITS'', ''MID_LIMITS'', ''MAX_LIMITS'']"
    by (simp add: RateLimits_def)
  have named: "(\<exists>v. enum_value RateLimits n = Some v) \<longleftrightarrow>
      n = ''DEFAULT_LIMITS'' \<or> n = ''MID_LIMITS'' \<or> n = ''MAX_LIMITS''" for n
    by (simp add: RateLimits_def)
  have http: "conforms v HTTPCaptureConfig \<longleftrightarrow> v = JStr ''AUTO'' \<or> v = JStr ''NONE''" for v
    by (simp add: HTTPCaptureConfig_def)
  have suspend: "conforms v SuspendReportingType \<longleftrightarrow>
          v = JStr ''NEVER'' \<or> v = JStr ''LOW_BATTERY'' \<or> v = JStr ''CELLULAR_CONNECTION''
        \<or> v = JStr ''LOW_BATTERY_OR_CELLULAR_CONNECTION''" for v
    by (simp add: SuspendReportingType_def)
  show ?thesis
    using members named http suspend by blast
qed

theorem closed_enumerations_witness:
  "conforms (JStr ''NONE'') HTTPCaptureConfig \<and> \<not> conforms (JStr ''ALWAYS'') HTTPCaptureConfig
   \<and> conforms (JStr ''LOW_BATTERY'') SuspendReportingType
   \<and> \<not> conforms (JStr ''low_battery'') SuspendReportingType
   \<and> \<not> conforms (JNum (Finite 1)) SuspendReportingType
   \<and> enum_value RateLimits ''MID_LIMITS'' \<noteq> None
   \<and> enum_value RateLimits ''HIGH_LIMITS'' = None"
  using closed_enumerations by (simp add: RateLimits_def)

text \<open>
  C9. The members of RateLimits have the values DEFAULT_LIMITS = 0, MID_LIMITS = 1 and
  MAX_LIMITS = 2, and on either platform the documented default of the \<^verbatim>\<open>rateLimits\<close>
  option is \<^verbatim>\<open>RateLimits.DEFAULT_LIMITS\<close>, the number 0.
\<close>

theorem RateLimits_values_and_default:
  "enum_value RateLimits ''DEFAULT_LIMITS'' = Some (JNum (Finite 0))
   \<and> enum_value RateLimits ''MID_LIMITS'' = Some (JNum (Finite 1))
   \<and> enum_value RateLimits ''MAX_LIMITS'' = Some (JNum (Finite 2))
   \<and> map_of (SetupOptions_defaults p) ''rateLimits'' = enum_value RateLimits ''DEFAULT_LIMITS''
   \<and> map_of (SetupOptions_defaults p) ''rateLimits'' = Some (JNum (Finite 0))"
  by (simp add: RateLimits_def SetupOptions_defaults_def)

theorem RateLimits_values_and_default_witness:
  "map_of (SetupOptions_defaults Android) ''rateLimits'' = Some (JNum (Finite 0))
   \<and> map_of (SetupOptions_defaults IOS) ''rateLimits'' = Some (JNum (Finite 0))"
  using RateLimits_values_and_default [of Android] RateLimits_values_and_default [of IOS]
  by simp

text \<open>
  C10. The declaration puts no bound on the numeric options: for every number \<open>n\<close>, finite
  or not, of either sign, inside or outside the documented range of 2 to 3600 seconds, a
  SetupOptions record with \<^verbatim>\<open>slowSendInterval\<close> = \<open>n\<close> or with
  \<^verbatim>\<open>usiRefreshTimeIntervalInHrs\<close> = \<open>n\<close> inhabits SetupOptions and is accepted by \<^verbatim>\<open>setup\<close>.
\<close>

theorem numeric_options_unconstrained:
  "conforms (JObj [(''slowSendInterval'', JNum n)]) SetupOptions
   \<and> conforms (JObj [(''usiRefreshTimeIntervalInHrs'', JNum n)]) SetupOptions
   \<and> accepts ''setup'' [JStr key, JStr url, JObj [(''slowSendInterval'', JNum n)]]
   \<and> accepts ''setup'' [JStr key, JStr url, JObj [(''usiRefreshTimeIntervalInHrs'', JNum n)]]"
  by (simp add: SetupOptions_def accepts_def setup_member)

theorem numeric_options_unconstrained_witness:
  "accepts ''setup'' [JStr ''k'', JStr ''u'', JObj [(''slowSendInterval'', JNum (Finite 1))]]
   \<and> accepts ''setup'' [JStr ''k'', JStr ''u'', JObj [(''slowSendInterval'', JNum (Finite 86400))]]
   \<and> accepts ''setup'' [JStr ''k'', JStr ''u'', JObj [(''slowSendInterval'', JNum (Finite (- 5)))]]
   \<and> accepts ''setup'' [JStr ''k'', JStr ''u'', JObj [(''slowSendInterval'', JNum NaN)]]
   \<and> accepts ''setup'' [JStr ''k'', JStr ''u'',
        JObj [(''usiRefreshTimeIntervalInHrs'', JNum (Finite (- 1)))]]
   \<and> accepts ''setup'' [JStr ''k'', JStr ''u'',
        JObj [(''usiRefreshTimeIntervalInHrs'', JNum (Finite 0))]]
   \<and> accepts ''setup'' [JStr ''k'', JStr ''u'',
        JObj [(''usiRefreshTimeIntervalInHrs'', JNum (Finite 24))]]"
  using numeric_options_unconstrained [of "Finite 1" "''k''" "''u''"]
    numeric_options_unconstrained [of "Finite 86400" "''k''" "''u''"]
    numeric_options_unconstrained [of "Finite (- 5)" "''k''" "''u''"]
    numeric_options_unconstrained [of NaN "''k''" "''u''"]
    numeric_options_unconstrained [of "Finite (- 1)" "''k''" "''u''"]
    numeric_options_unconstrained [of "Finite 0" "''k''" "''u''"]
    numeric_options_unconstrained [of "Finite 24" "''k''" "''u''"]
  by blast

end
